theory Spec2Isabelle
  imports Main "HOL-Library.AList" "HOL-Library.Sublist"
begin

section \<open>JavaScript values and string primitives\<close>

text \<open>
  The two scripts \<^verbatim>\<open>packages/scripts/bin/post-build.cjs\<close> and
  \<^verbatim>\<open>packages/scripts/bin/sync-file.cjs\<close> read the descriptor
  \<^verbatim>\<open>etc/config/entrypoint-file.json\<close> of a package and its metadata. The first writes
  four stub files for every item of \<^verbatim>\<open>js-file\<close>, the second rewrites
  \<^verbatim>\<open>package.json\<close> and the generated section of \<^verbatim>\<open>.gitignore\<close>. The model starts
  where the package directory is known: the query to the package manager that finds it,
  and \<^verbatim>\<open>generateDTSFileForESM\<close>, which reads the compiled output only, are outside.

  A parsed JSON value (and \<^verbatim>\<open>undefined\<close>, the value of an absent property) is a
  \<open>jsval\<close>. An object is the list of its own properties in insertion order, with distinct
  keys; a property is read with \<open>map_of\<close>.

  Strings are byte lists. Every string primitive the scripts use works on the ASCII
  characters \<^verbatim>\<open>/\<close>, \<^verbatim>\<open>.\<close>, \<^verbatim>\<open>=\<close> and newline, so it acts on UTF-8 bytes
  as it does on the code units of a JavaScript string.
\<close>

datatype jsval =
    JUndefined
  | JNull
  | JBool bool
  | JNum int
  | JStr string
  | JArr "jsval list"
  | JObj "(string \<times> jsval) list"

abbreviation sq :: string where
  "sq \<equiv> [CHR 0x27]"

abbreviation NL :: char where
  "NL \<equiv> CHR 0x0A"

text \<open>\<^verbatim>\<open>s.startsWith(p)\<close>\<close>

fun startsWith :: "string \<Rightarrow> string \<Rightarrow> bool" where
  "startsWith s [] = True"
| "startsWith [] (p # ps) = False"
| "startsWith (c # cs) (p # ps) = (c = p \<and> startsWith cs ps)"

text \<open>\<^verbatim>\<open>s.includes(m)\<close>: \<open>m\<close> occurs in \<open>s\<close> as a contiguous substring.\<close>

fun includes_str :: "string \<Rightarrow> string \<Rightarrow> bool" where
  "includes_str [] m = (m = [])"
| "includes_str (c # cs) m = (startsWith (c # cs) m \<or> includes_str cs m)"

text \<open>\<^verbatim>\<open>xs.join(sep)\<close>\<close>

fun join :: "string \<Rightarrow> string list \<Rightarrow> string" where
  "join sep [] = []"
| "join sep [x] = x"
| "join sep (x # y # ys) = x @ sep @ join sep (y # ys)"

text \<open>
  \<^verbatim>\<open>s.split(c)\<close> for a separator of one character. The result is never empty, so
  the first branch of the \<open>case\<close> is never taken.
\<close>

fun split_on :: "char \<Rightarrow> string \<Rightarrow> string list" where
  "split_on c [] = [[]]"
| "split_on c (x # xs) =
     (if x = c then [] # split_on c xs
      else (case split_on c xs of [] \<Rightarrow> [[x]] | y # ys \<Rightarrow> (x # y) # ys))"

text \<open>
  \<^verbatim>\<open>obj[k] = v\<close> on a plain object: an existing own property keeps its place, a new
  one goes last. Assigning to \<^verbatim>\<open>__proto__\<close> goes to the inherited setter and creates
  no own property.
\<close>

definition set_property :: "string \<Rightarrow> 'v \<Rightarrow> (string \<times> 'v) list \<Rightarrow> (string \<times> 'v) list" where
  "set_property k v obj = (if k = ''__proto__'' then obj else AList.update k v obj)"

section \<open>The descriptor\<close>

text \<open>
  An item of \<^verbatim>\<open>js-file\<close>. \<open>item_name\<close> and \<open>item_file\<close> are its \<^verbatim>\<open>name\<close> and
  \<^verbatim>\<open>file\<close>, both strings; \<^verbatim>\<open>export-kind\<close> and \<^verbatim>\<open>entry-point\<close> are kept as
  raw values because the generator inspects their shape. The two other kinds of entry
  follow.
\<close>

record JsFileEntry =
  item_name :: string
  item_file :: string
  export_kind :: jsval
  entry_point :: jsval

record StaticFileEntry =
  static_name :: string
  static_file :: string

record CustomConfigEntry =
  custom_name :: string
  export_config :: jsval
  files_config :: "string list"

text \<open>
  The content of \<^verbatim>\<open>etc/config/entrypoint-file.json\<close>; \<open>None\<close> is a key that the
  JSON object does not have.
\<close>

record EntryPointDescriptor =
  js_file :: "JsFileEntry list option"
  static_file_list :: "StaticFileEntry list option"
  custom_config :: "CustomConfigEntry list option"

section \<open>post-build.cjs: the artifact generator\<close>

subsection \<open>Path adjustment\<close>

definition depth :: "string \<Rightarrow> nat" where
  "depth nm = length (filter (\<lambda>c. c = CHR ''/'') nm)"

definition relativePrefix :: "string \<Rightarrow> string" where
  "relativePrefix nm = (if depth nm > 0 then concat (replicate (depth nm) ''../'') else [])"

definition normalizedFile :: "string \<Rightarrow> string \<Rightarrow> string" where
  "normalizedFile nm f = (if depth nm > 0 \<and> startsWith f ''./'' then drop 2 f else f)"

definition adjustedFile :: "string \<Rightarrow> string \<Rightarrow> string" where
  "adjustedFile nm f = relativePrefix nm @ normalizedFile nm f"

subsection \<open>The two export lists\<close>

text \<open>The callbacks of the two \<^verbatim>\<open>reduce\<close> calls; \<open>temp\<close> holds the non-empty accumulator.\<close>

definition is_interface :: "(string \<times> jsval) list \<Rightarrow> string option" where
  "is_interface ps =
     (if map_of ps ''type'' = Some (JStr ''interface'') then
        (case map_of ps ''name'' of
           Some (JStr n) \<Rightarrow> (if n \<noteq> [] then Some n else None)
         | _ \<Rightarrow> None)
      else None)"

definition dts_step :: "string \<Rightarrow> jsval \<Rightarrow> string" where
  "dts_step result item =
     (let temp = (if result \<noteq> [] then [result] else []) in
      case item of
        JStr s \<Rightarrow> join '', '' (temp @ [s])
      | JObj ps \<Rightarrow>
          (case is_interface ps of
             Some n \<Rightarrow> join '', '' (temp @ [''type '' @ n])
           | None \<Rightarrow> result)
      | _ \<Rightarrow> result)"

definition nontype_step :: "string \<Rightarrow> jsval \<Rightarrow> string" where
  "nontype_step result item =
     (let temp = (if result \<noteq> [] then [result] else []) in
      case item of
        JStr s \<Rightarrow> join '', '' (temp @ [s])
      | _ \<Rightarrow> result)"

definition formattedEntryPointDTS :: "jsval list \<Rightarrow> string" where
  "formattedEntryPointDTS entryPoint = foldl dts_step [] entryPoint"

definition formattedEntryPointNonType :: "jsval list \<Rightarrow> string" where
  "formattedEntryPointNonType entryPoint = foldl nontype_step [] entryPoint"

text \<open>
  What the two lists are specified to be: the declaration list names every string element
  as it is and every interface marker as \<^verbatim>\<open>type\<close> and its name, the value list names
  the string elements only; the names are joined with a comma and a space. An empty string
  met while the accumulator is still empty leaves it empty, so the empty names in front
  of the first non-empty one do not show.
\<close>

fun declaration_name :: "jsval \<Rightarrow> string option" where
  "declaration_name (JStr s) = Some s"
| "declaration_name (JObj ps) = map_option (\<lambda>n. ''type '' @ n) (is_interface ps)"
| "declaration_name _ = None"

fun value_name :: "jsval \<Rightarrow> string option" where
  "value_name (JStr s) = Some s"
| "value_name _ = None"

definition declaration_list :: "jsval list \<Rightarrow> string list" where
  "declaration_list entryPoint =
     dropWhile (\<lambda>s. s = []) (List.map_filter declaration_name entryPoint)"

definition value_list :: "jsval list \<Rightarrow> string list" where
  "value_list entryPoint = dropWhile (\<lambda>s. s = []) (List.map_filter value_name entryPoint)"

subsection \<open>The four contents\<close>

record contents =
  modernJSContent :: string
  oldJSContent :: string
  modernDTSContent :: string
  dtsContent :: string

definition no_contents :: contents where
  "no_contents =
     \<lparr>modernJSContent = [], oldJSContent = [], modernDTSContent = [], dtsContent = []\<rparr>"

definition default_contents :: "string \<Rightarrow> contents" where
  "default_contents adj =
     \<lparr>modernJSContent =
        '''use client';\<newline>export { default } from '' @ sq @ adj @ ''.esm';\<newline>'',
      oldJSContent =
        '''use client';\<newline>module.exports = require('' @ sq @ adj @ ''');\<newline>'',
      modernDTSContent = ''export { default } from '' @ sq @ adj @ ''.esm';\<newline>'',
      dtsContent = ''export { default } from '' @ sq @ adj @ ''';\<newline>''\<rparr>"

definition named_contents :: "string \<Rightarrow> jsval list \<Rightarrow> contents" where
  "named_contents adj entryPoint =
     (let d = formattedEntryPointDTS entryPoint;
          v = formattedEntryPointNonType entryPoint in
      \<lparr>modernJSContent =
         '''use client';\<newline>export { '' @ v @ '' } from '' @ sq @ adj @ ''.esm';\<newline>'',
       oldJSContent =
         join [NL]
           ['''use client';'',
            ''const { '' @ v @ '' } = require('' @ sq @ adj @ ''');'',
            ''module.exports = { '' @ v @ '' };''],
       modernDTSContent = ''export { '' @ d @ '' } from '' @ sq @ adj @ ''.esm';\<newline>'',
       dtsContent = ''export { '' @ d @ '' } from '' @ sq @ adj @ ''';\<newline>''\<rparr>)"

text \<open>The \<^verbatim>\<open>switch (kind)\<close> of \<^verbatim>\<open>generatePublicAPI\<close>, from the four empty strings.\<close>

definition build_contents :: "JsFileEntry \<Rightarrow> contents" where
  "build_contents item =
     (let adj = adjustedFile (item_name item) (item_file item) in
      if export_kind item = JStr ''default export'' then default_contents adj
      else if export_kind item = JStr ''named export'' then
        (case entry_point item of
           JArr entryPoint \<Rightarrow>
             (if length entryPoint > 0 then named_contents adj entryPoint else no_contents)
         | _ \<Rightarrow> no_contents)
      else no_contents)"

subsection \<open>Writing the files\<close>

text \<open>
  The file system is a map from paths to contents, the console a list of events.
  \<^verbatim>\<open>ensureDirAndWriteFile\<close> creates the missing directories and writes the file; the
  directories are not part of the model, and neither are the failures of the operating
  system. \<^verbatim>\<open>path.join\<close> belongs to the runtime and is the parameter \<open>pj\<close>.
\<close>

datatype log_event = Failured string | Success string

record world =
  fs :: "string \<rightharpoonup> string"
  console :: "log_event list"

definition ensureDirAndWriteFile :: "string \<Rightarrow> string \<Rightarrow> world \<Rightarrow> world" where
  "ensureDirAndWriteFile filePath content w = w\<lparr>fs := (fs w)(filePath \<mapsto> content)\<rparr>"

definition console_log :: "log_event \<Rightarrow> world \<Rightarrow> world" where
  "console_log e w = w\<lparr>console := console w @ [e]\<rparr>"

definition jsFilePath :: "(string \<Rightarrow> string \<Rightarrow> string) \<Rightarrow> string \<Rightarrow> string \<Rightarrow> string" where
  "jsFilePath pj dir nm = pj dir (''./'' @ nm @ ''.js'')"

definition modernJSFilePath :: "(string \<Rightarrow> string \<Rightarrow> string) \<Rightarrow> string \<Rightarrow> string \<Rightarrow> string" where
  "modernJSFilePath pj dir nm = pj dir (''./'' @ nm @ ''.esm.js'')"

definition dtsFilePath :: "(string \<Rightarrow> string \<Rightarrow> string) \<Rightarrow> string \<Rightarrow> string \<Rightarrow> string" where
  "dtsFilePath pj dir nm = pj dir (''./'' @ nm @ ''.d.ts'')"

definition modernDtsFilePath :: "(string \<Rightarrow> string \<Rightarrow> string) \<Rightarrow> string \<Rightarrow> string \<Rightarrow> string" where
  "modernDtsFilePath pj dir nm = pj dir (''./'' @ nm @ ''.esm.d.ts'')"

text \<open>The body of the \<^verbatim>\<open>forEach\<close> callback.\<close>

definition generate_item ::
  "(string \<Rightarrow> string \<Rightarrow> string) \<Rightarrow> string \<Rightarrow> JsFileEntry \<Rightarrow> world \<Rightarrow> world" where
  "generate_item pj dir item w =
     (let c = build_contents item in
      if modernJSContent c = [] \<or> oldJSContent c = [] \<or> modernDTSContent c = []
         \<or> dtsContent c = []
      then console_log (Failured (item_name item)) w
      else
        console_log (Success (item_name item))
          (ensureDirAndWriteFile (modernDtsFilePath pj dir (item_name item)) (modernDTSContent c)
            (ensureDirAndWriteFile (dtsFilePath pj dir (item_name item)) (dtsContent c)
              (ensureDirAndWriteFile (modernJSFilePath pj dir (item_name item)) (modernJSContent c)
                (ensureDirAndWriteFile (jsFilePath pj dir (item_name item)) (oldJSContent c) w)))))"

definition generatePublicAPI ::
  "(string \<Rightarrow> string \<Rightarrow> string) \<Rightarrow> string \<Rightarrow> JsFileEntry list \<Rightarrow> world \<Rightarrow> world" where
  "generatePublicAPI pj dir jsFiles w = fold (generate_item pj dir) jsFiles w"

text \<open>
  The reader of \<^verbatim>\<open>post-build.cjs\<close>: \<^verbatim>\<open>"js-file": jsFiles = []\<close> gives an absent
  key the empty list.
\<close>

definition post_build_jsFiles :: "EntryPointDescriptor \<Rightarrow> JsFileEntry list" where
  "post_build_jsFiles d = (case js_file d of None \<Rightarrow> [] | Some xs \<Rightarrow> xs)"

definition post_build ::
  "(string \<Rightarrow> string \<Rightarrow> string) \<Rightarrow> string \<Rightarrow> EntryPointDescriptor \<Rightarrow> world \<Rightarrow> world" where
  "post_build pj dir d w = generatePublicAPI pj dir (post_build_jsFiles d) w"

text \<open>
  An instance of \<open>pj\<close> to run the generator on concrete input: what
  \<^verbatim>\<open>path.join(dir, "./" + rest)\<close> returns when \<open>dir\<close> is a normalised path and
  \<open>rest\<close> has no empty, \<^verbatim>\<open>.\<close> or \<^verbatim>\<open>..\<close> segment.
\<close>

definition simple_join :: "string \<Rightarrow> string \<Rightarrow> string" where
  "simple_join dir p = dir @ ''/'' @ (if startsWith p ''./'' then drop 2 p else p)"

definition empty_world :: world where
  "empty_world = \<lparr>fs = Map.empty, console = []\<rparr>"

section \<open>sync-file.cjs: the manifest writer\<close>

text \<open>
  A call of a method on \<^verbatim>\<open>undefined\<close> raises a \<^verbatim>\<open>TypeError\<close>; inside an
  \<^verbatim>\<open>async\<close> function the returned promise is rejected with it.
\<close>

datatype error = TypeError

text \<open>The four file names that both functions list for an item.\<close>

definition generated_names :: "JsFileEntry \<Rightarrow> string list" where
  "generated_names item =
     [item_name item @ ''.js'', item_name item @ ''.d.ts'',
      item_name item @ ''.esm.js'', item_name item @ ''.esm.d.ts'']"

subsection \<open>registerGITIgnoreFiles\<close>

definition GIT_IGNORE_START_LINE :: string where
  "GIT_IGNORE_START_LINE = ''### Start Generated Section''"

definition GIT_IGNORE_END_LINE :: string where
  "GIT_IGNORE_END_LINE = ''### End Generated Section''"

text \<open>
  The \<^verbatim>\<open>filter\<close> callback closes over the flag \<^verbatim>\<open>inGeneratedSection\<close>; the flag
  is the first argument here and the lines are visited from left to right.
\<close>

fun filter_lines :: "bool \<Rightarrow> string list \<Rightarrow> string list" where
  "filter_lines inGeneratedSection [] = []"
| "filter_lines inGeneratedSection (line # rest) =
     (if includes_str line GIT_IGNORE_START_LINE then filter_lines True rest
      else if includes_str line GIT_IGNORE_END_LINE then filter_lines False rest
      else if inGeneratedSection then filter_lines inGeneratedSection rest
      else line # filter_lines inGeneratedSection rest)"

definition generated_section :: "JsFileEntry list \<Rightarrow> string list" where
  "generated_section jsFiles =
     GIT_IGNORE_START_LINE # concat (map generated_names jsFiles) @ [GIT_IGNORE_END_LINE]"

text \<open>
  From the content of \<^verbatim>\<open>.gitignore\<close> to the content written back. The file is read
  before \<^verbatim>\<open>jsFiles.forEach\<close> is reached and written after it, so an undefined
  \<^verbatim>\<open>jsFiles\<close> leaves the file as it was.
\<close>

definition registerGITIgnoreFiles :: "JsFileEntry list option \<Rightarrow> string \<Rightarrow> error + string" where
  "registerGITIgnoreFiles jsFiles content =
     (let filteredLines = filter_lines False (split_on NL content) in
      case jsFiles of
        None \<Rightarrow> Inl TypeError
      | Some js \<Rightarrow> Inr (join [NL] (filteredLines @ generated_section js)))"

subsection \<open>registerExposedFiles\<close>

text \<open>
  \<^verbatim>\<open>content.files\<close> and \<^verbatim>\<open>content.exports\<close> while the three loops run; both are
  reachable only through \<^verbatim>\<open>content\<close>, so they are kept apart from it until the end.
\<close>

record exposed =
  files :: "string list"
  exports :: "(string \<times> jsval) list"

definition apply_custom :: "CustomConfigEntry \<Rightarrow> exposed \<Rightarrow> exposed" where
  "apply_custom item e =
     \<lparr>files = files e @ files_config item,
      exports = set_property (custom_name item) (export_config item) (exports e)\<rparr>"

definition apply_static :: "StaticFileEntry \<Rightarrow> exposed \<Rightarrow> exposed" where
  "apply_static item e =
     e\<lparr>exports := set_property (''./'' @ static_name item) (JStr (static_file item)) (exports e)\<rparr>"

definition esm_conditions :: "string \<Rightarrow> jsval" where
  "esm_conditions nm =
     JObj [(''import'', JStr (''./'' @ nm @ ''.esm.js'')),
           (''require'', JStr (''./'' @ nm @ ''.esm.js'')),
           (''types'', JStr (''./'' @ nm @ ''.d.ts''))]"

definition cjs_conditions :: "string \<Rightarrow> jsval" where
  "cjs_conditions nm =
     JObj [(''import'', JStr (''./'' @ nm @ ''.js'')),
           (''require'', JStr (''./'' @ nm @ ''.js'')),
           (''types'', JStr (''./'' @ nm @ ''.d.ts''))]"

definition apply_js :: "JsFileEntry \<Rightarrow> exposed \<Rightarrow> exposed" where
  "apply_js item e =
     \<lparr>files = files e @ generated_names item,
      exports =
        set_property (''./'' @ item_name item @ ''.cjs'') (cjs_conditions (item_name item))
          (set_property (''./'' @ item_name item) (esm_conditions (item_name item))
            (exports e))\<rparr>"

definition initial_exposed :: exposed where
  "initial_exposed = \<lparr>files = [''dist''], exports = []\<rparr>"

text \<open>
  From the object of \<^verbatim>\<open>package.json\<close> to the object handed to
  \<^verbatim>\<open>JSON.stringify\<close>. The spread copies the own properties in order; the two
  assignments replace \<^verbatim>\<open>files\<close> and \<^verbatim>\<open>exports\<close> or add them at the end. Each
  \<^verbatim>\<open>forEach\<close> on an undefined list raises before the file is written.
\<close>

definition registerExposedFiles ::
  "CustomConfigEntry list option \<Rightarrow> StaticFileEntry list option \<Rightarrow> JsFileEntry list option \<Rightarrow>
   (string \<times> jsval) list \<Rightarrow> error + (string \<times> jsval) list" where
  "registerExposedFiles customConfig staticFiles jsFiles PACKAGE_JSON_CONTENT =
     (case customConfig of
        None \<Rightarrow> Inl TypeError
      | Some cc \<Rightarrow>
          (case staticFiles of
             None \<Rightarrow> Inl TypeError
           | Some sf \<Rightarrow>
               (case jsFiles of
                  None \<Rightarrow> Inl TypeError
                | Some js \<Rightarrow>
                    (let e = fold apply_js js (fold apply_static sf (fold apply_custom cc initial_exposed))
                     in Inr (AList.update ''exports'' (JObj (exports e))
                              (AList.update ''files'' (JArr (map JStr (files e)))
                                PACKAGE_JSON_CONTENT))))))"

text \<open>
  The reader of \<^verbatim>\<open>sync-file.cjs\<close> destructures the three keys with no default and
  starts both functions on the same descriptor.
\<close>

definition sync_file ::
  "EntryPointDescriptor \<Rightarrow> string \<Rightarrow> (string \<times> jsval) list \<Rightarrow>
   (error + string) \<times> (error + (string \<times> jsval) list)" where
  "sync_file d gitignore pkg =
     (registerGITIgnoreFiles (js_file d) gitignore,
      registerExposedFiles (custom_config d) (static_file_list d) (js_file d) pkg)"

subsection \<open>The command line\<close>

text \<open>
  \<^verbatim>\<open>process.argv.slice(2).reduce(...)\<close>, the same in both scripts. The result object is
  the list of its own properties; the value is \<open>None\<close> for \<^verbatim>\<open>undefined\<close>, when the
  argument has no \<^verbatim>\<open>=\<close>.
\<close>

definition hasOwnProperty :: "(string \<times> 'v) list \<Rightarrow> string \<Rightarrow> bool" where
  "hasOwnProperty obj k = (k \<in> set (map fst obj))"

definition argument_step :: "(string \<times> string option) list \<Rightarrow> string \<Rightarrow> (string \<times> string option) list" where
  "argument_step result current =
     (let parts = split_on CHR ''='' current;
          key = hd parts;
          val = (if length parts > 1 then Some (parts ! 1) else None)
      in if \<not> hasOwnProperty result key then set_property key val result else result)"

definition argument :: "string list \<Rightarrow> (string \<times> string option) list" where
  "argument argv = foldl argument_step [] argv"

text \<open>What \<open>argument\<close> is specified to hold for a key: the value of its first occurrence.\<close>

definition arg_key :: "string \<Rightarrow> string" where
  "arg_key current = hd (split_on CHR ''='' current)"

definition arg_value :: "string \<Rightarrow> string option" where
  "arg_value current =
     (let parts = split_on CHR ''='' current in if length parts > 1 then Some (parts ! 1) else None)"

definition first_occurrence :: "string \<Rightarrow> string list \<Rightarrow> string option option" where
  "first_occurrence k argv =
     (case List.find (\<lambda>a. arg_key a = k) argv of
        None \<Rightarrow> None
      | Some a \<Rightarrow> Some (arg_value a))"

section \<open>Properties of the artifact generator\<close>

subsection \<open>Auxiliary facts\<close>

lemma depth_count_list: "depth nm = count_list nm CHR ''/''"
  unfolding depth_def by (induction nm) simp_all

lemma startsWith_dot_slash: "startsWith f ''./'' \<longleftrightarrow> take 2 f = ''./''"
proof (cases f)
  case Nil
  then show ?thesis by simp
next
  case (Cons a g)
  then show ?thesis by (cases g) auto
qed

lemma adjustedFile_eq:
  "adjustedFile nm f =
     (if count_list nm CHR ''/'' = 0 then f
      else concat (replicate (count_list nm CHR ''/'') ''../'')
           @ (if take 2 f = ''./'' then drop 2 f else f))"
  by (simp add: adjustedFile_def relativePrefix_def normalizedFile_def depth_count_list
      startsWith_dot_slash)

text \<open>A run changes the file system by overriding it with a map that the items determine.\<close>

lemma generate_item_fs:
  "\<exists>M. \<forall>w. fs (generate_item pj dir item w) = fs w ++ M"
proof (cases "generate_item pj dir item = console_log (Failured (item_name item))")
  case True
  then have "\<forall>w. fs (generate_item pj dir item w) = fs w ++ Map.empty"
    by (simp add: console_log_def)
  then show ?thesis by blast
next
  case False
  define c where "c = build_contents item"
  define M where "M = [jsFilePath pj dir (item_name item) \<mapsto> oldJSContent c,
      modernJSFilePath pj dir (item_name item) \<mapsto> modernJSContent c,
      dtsFilePath pj dir (item_name item) \<mapsto> dtsContent c,
      modernDtsFilePath pj dir (item_name item) \<mapsto> modernDTSContent c]"
  from False have ne: "\<not> (modernJSContent c = [] \<or> oldJSContent c = [] \<or> modernDTSContent c = []
         \<or> dtsContent c = [])"
    unfolding c_def by (auto simp add: generate_item_def Let_def fun_eq_iff)
  have "\<forall>w. fs (generate_item pj dir item w) = fs w ++ M"
    using ne unfolding c_def M_def
    by (simp add: generate_item_def Let_def console_log_def ensureDirAndWriteFile_def)
  then show ?thesis by blast
qed

lemma generatePublicAPI_fs:
  "\<exists>M. \<forall>w. fs (generatePublicAPI pj dir jsFiles w) = fs w ++ M"
proof (induction jsFiles)
  case Nil
  have "\<forall>w. fs (generatePublicAPI pj dir [] w) = fs w ++ Map.empty"
    by (simp add: generatePublicAPI_def)
  then show ?case by blast
next
  case (Cons item rest)
  obtain M1 where M1: "\<And>w. fs (generate_item pj dir item w) = fs w ++ M1"
    using generate_item_fs by blast
  obtain M2 where M2: "\<And>w. fs (generatePublicAPI pj dir rest w) = fs w ++ M2"
    using Cons.IH by blast
  have "\<forall>w. fs (generatePublicAPI pj dir (item # rest) w) = fs w ++ (M1 ++ M2)"
    using M1 M2 by (simp add: generatePublicAPI_def)
  then show ?case by blast
qed

lemma generatePublicAPI_fs_cong:
  assumes "fs w = fs w'"
  shows "fs (generatePublicAPI pj dir jsFiles w) = fs (generatePublicAPI pj dir jsFiles w')"
proof -
  obtain M where "\<And>w. fs (generatePublicAPI pj dir jsFiles w) = fs w ++ M"
    using generatePublicAPI_fs by blast
  then show ?thesis using assms by simp
qed

lemma generatePublicAPI_append:
  "generatePublicAPI pj dir (xs @ ys) w = generatePublicAPI pj dir ys (generatePublicAPI pj dir xs w)"
  by (simp add: generatePublicAPI_def)

lemma generatePublicAPI_Cons:
  "generatePublicAPI pj dir (x # xs) w = generatePublicAPI pj dir xs (generate_item pj dir x w)"
  by (simp add: generatePublicAPI_def)

lemma build_contents_unsupported:
  assumes "(export_kind item \<noteq> JStr ''default export'' \<and> export_kind item \<noteq> JStr ''named export'')
     \<or> (export_kind item = JStr ''named export''
         \<and> (entry_point item = JArr [] \<or> (\<forall>ep. entry_point item \<noteq> JArr ep)))"
  shows "build_contents item = no_contents"
  using assms by (auto simp add: build_contents_def Let_def split: jsval.splits)

text \<open>The two folds compute the joined lists.\<close>

lemma join_merge: "join sep ((x @ sep @ y) # ys) = join sep (x # y # ys)"
  by (cases ys) simp_all

lemma dts_step_eq:
  "dts_step result item =
     (case declaration_name item of
        None \<Rightarrow> result
      | Some s \<Rightarrow> if result = [] then s else result @ '', '' @ s)"
  by (cases item) (simp_all add: dts_step_def Let_def split: option.splits)

lemma nontype_step_eq:
  "nontype_step result item =
     (case value_name item of
        None \<Rightarrow> result
      | Some s \<Rightarrow> if result = [] then s else result @ '', '' @ s)"
  by (cases item) (simp_all add: nontype_step_def Let_def)

lemma foldl_step_started:
  assumes "\<And>r i. step r i = (case nm i of None \<Rightarrow> r
      | Some s \<Rightarrow> if r = [] then s else r @ '', '' @ s)"
    and "acc \<noteq> []"
  shows "foldl step acc items = join '', '' (acc # List.map_filter nm items)"
  using assms(2)
proof (induction items arbitrary: acc)
  case Nil
  then show ?case by (simp add: List.map_filter_simps)
next
  case (Cons i items)
  show ?case
  proof (cases "nm i")
    case None
    then have "step acc i = acc" by (simp add: assms(1))
    then have "foldl step acc (i # items) = foldl step acc items" by simp
    then show ?thesis using None Cons by (simp add: List.map_filter_simps)
  next
    case (Some s)
    have "step acc i = acc @ '', '' @ s"
      using Some Cons.prems by (simp add: assms(1))
    then have "foldl step acc (i # items) = foldl step (acc @ '', '' @ s) items"
      by simp
    also have "\<dots> = join '', '' ((acc @ '', '' @ s) # List.map_filter nm items)"
      by (rule Cons.IH) simp
    also have "\<dots> = join '', '' (acc # s # List.map_filter nm items)"
      by (rule join_merge)
    finally show ?thesis using Some by (simp add: List.map_filter_simps)
  qed
qed

lemma foldl_step_fresh:
  assumes "\<And>r i. step r i = (case nm i of None \<Rightarrow> r
      | Some s \<Rightarrow> if r = [] then s else r @ '', '' @ s)"
  shows "foldl step [] items = join '', '' (dropWhile (\<lambda>s. s = []) (List.map_filter nm items))"
proof (induction items)
  case Nil
  then show ?case by (simp add: List.map_filter_simps)
next
  case (Cons i items)
  show ?case
  proof (cases "nm i")
    case None
    then have "step [] i = []" by (simp add: assms)
    then have "foldl step [] (i # items) = foldl step [] items" by simp
    then show ?thesis using None Cons by (simp add: List.map_filter_simps)
  next
    case (Some s)
    have st: "step [] i = s"
      using Some by (simp add: assms)
    then have run: "foldl step [] (i # items) = foldl step s items"
      by simp
    show ?thesis
    proof (cases "s = []")
      case True
      then show ?thesis using Some Cons run by (simp add: List.map_filter_simps)
    next
      case False
      have "foldl step s items = join '', '' (s # List.map_filter nm items)"
        using assms False by (rule foldl_step_started)
      then show ?thesis using Some False run by (simp add: List.map_filter_simps)
    qed
  qed
qed

lemma formattedEntryPointDTS_eq:
  "formattedEntryPointDTS ep = join '', '' (declaration_list ep)"
  unfolding formattedEntryPointDTS_def declaration_list_def
  by (rule foldl_step_fresh) (rule dts_step_eq)

lemma formattedEntryPointNonType_eq:
  "formattedEntryPointNonType ep = join '', '' (value_list ep)"
  unfolding formattedEntryPointNonType_def value_list_def
  by (rule foldl_step_fresh) (rule nontype_step_eq)

lemma set_dropWhile_keep: "x \<in> set xs \<Longrightarrow> \<not> P x \<Longrightarrow> x \<in> set (dropWhile P xs)"
  by (induction xs) auto

lemma value_name_Some: "value_name i = Some s \<longleftrightarrow> i = JStr s"
  by (cases i) auto

lemma value_list_plain:
  assumes "s \<in> set (value_list ep)"
  shows "JStr s \<in> set ep"
proof -
  from assms have "s \<in> set (List.map_filter value_name ep)"
    unfolding value_list_def by (rule set_dropWhileD)
  then show ?thesis
    by (auto simp add: List.map_filter_def value_name_Some)
qed

lemma is_interface_Some:
  "is_interface ps = Some n \<longleftrightarrow>
     map_of ps ''type'' = Some (JStr ''interface'') \<and> map_of ps ''name'' = Some (JStr n) \<and> n \<noteq> []"
  by (auto simp add: is_interface_def split: option.splits jsval.splits)

lemma declaration_list_interface:
  assumes "JObj ps \<in> set ep" and "is_interface ps = Some n"
  shows "''type '' @ n \<in> set (declaration_list ep)"
proof -
  have "declaration_name (JObj ps) = Some (''type '' @ n)"
    using assms(2) by simp
  then have "''type '' @ n \<in> set (List.map_filter declaration_name ep)"
    using assms(1) by (force simp add: List.map_filter_def)
  then show ?thesis
    unfolding declaration_list_def by (rule set_dropWhile_keep) simp
qed

lemma declaration_list_plain:
  assumes "JStr s \<in> set ep" and "s \<noteq> []"
  shows "s \<in> set (declaration_list ep) \<and> s \<in> set (value_list ep)"
proof -
  have "s \<in> set (List.map_filter declaration_name ep)"
    using assms(1) by (force simp add: List.map_filter_def)
  moreover have "s \<in> set (List.map_filter value_name ep)"
    using assms(1) by (force simp add: List.map_filter_def)
  ultimately show ?thesis
    unfolding declaration_list_def value_list_def using assms(2)
    by (simp add: set_dropWhile_keep)
qed

subsection \<open>Path adjustment\<close>

text \<open>
  Claim C1. Let \<open>k\<close> be the number of \<^verbatim>\<open>/\<close> in the name of an item. The path that each
  of the four stubs embeds is the file of the item when \<open>k = 0\<close>, and otherwise \<open>k\<close> copies
  of \<^verbatim>\<open>../\<close> followed by the file without its leading \<^verbatim>\<open>./\<close> (if it has one). This
  holds for both templates, the default export and the named export with a non-empty
  list; no other item gets stubs.
\<close>

theorem stub_path_adjustment:
  "let k = count_list (item_name item) CHR ''/'';
       p = (if k = 0 then item_file item
            else concat (replicate k ''../'')
                 @ (if take 2 (item_file item) = ''./'' then drop 2 (item_file item)
                    else item_file item))
   in (export_kind item = JStr ''default export'' \<longrightarrow>
         build_contents item =
           \<lparr>modernJSContent =
              '''use client';\<newline>export { default } from '' @ sq @ p @ ''.esm';\<newline>'',
            oldJSContent =
              '''use client';\<newline>module.exports = require('' @ sq @ p @ ''');\<newline>'',
            modernDTSContent = ''export { default } from '' @ sq @ p @ ''.esm';\<newline>'',
            dtsContent = ''export { default } from '' @ sq @ p @ ''';\<newline>''\<rparr>)
    \<and> (\<forall>ep. export_kind item = JStr ''named export'' \<and> entry_point item = JArr ep \<and> ep \<noteq> []
         \<longrightarrow>
         build_contents item =
           \<lparr>modernJSContent =
              '''use client';\<newline>export { '' @ formattedEntryPointNonType ep
              @ '' } from '' @ sq @ p @ ''.esm';\<newline>'',
            oldJSContent =
              '''use client';\<newline>const { '' @ formattedEntryPointNonType ep
              @ '' } = require('' @ sq @ p @ ''');\<newline>module.exports = { ''
              @ formattedEntryPointNonType ep @ '' };'',
            modernDTSContent =
              ''export { '' @ formattedEntryPointDTS ep @ '' } from '' @ sq @ p
              @ ''.esm';\<newline>'',
            dtsContent =
              ''export { '' @ formattedEntryPointDTS ep @ '' } from '' @ sq @ p
              @ ''';\<newline>''\<rparr>)"
  by (simp add: Let_def build_contents_def default_contents_def named_contents_def
      adjustedFile_eq)

theorem stub_path_adjustment_witness:
  "build_contents \<lparr>item_name = ''utils/api'', item_file = ''./dist/utils/api'',
       export_kind = JStr ''default export'', entry_point = JUndefined\<rparr> =
     \<lparr>modernJSContent = '''use client';\<newline>export { default } from '../dist/utils/api.esm';\<newline>'',
      oldJSContent = '''use client';\<newline>module.exports = require('../dist/utils/api');\<newline>'',
      modernDTSContent = ''export { default } from '../dist/utils/api.esm';\<newline>'',
      dtsContent = ''export { default } from '../dist/utils/api';\<newline>''\<rparr>
   \<and> build_contents \<lparr>item_name = ''api'', item_file = ''./dist/api'',
       export_kind = JStr ''named export'', entry_point = JArr [JStr ''get'']\<rparr> =
     \<lparr>modernJSContent = '''use client';\<newline>export { get } from './dist/api.esm';\<newline>'',
      oldJSContent = '''use client';\<newline>const { get } = require('./dist/api');\<newline>module.exports = { get };'',
      modernDTSContent = ''export { get } from './dist/api.esm';\<newline>'',
      dtsContent = ''export { get } from './dist/api';\<newline>''\<rparr>"
  using stub_path_adjustment [of "\<lparr>item_name = ''utils/api'', item_file = ''./dist/utils/api'',
       export_kind = JStr ''default export'', entry_point = JUndefined\<rparr>"]
    stub_path_adjustment [of "\<lparr>item_name = ''api'', item_file = ''./dist/api'',
       export_kind = JStr ''named export'', entry_point = JArr [JStr ''get'']\<rparr>"]
  by (simp add: Let_def formattedEntryPointNonType_def formattedEntryPointDTS_def
      nontype_step_def dts_step_def)

subsection \<open>The stubs of a nested default export\<close>

text \<open>
  Claim C4 says that for the single item \<^verbatim>\<open>a/b/api\<close> with file
  \<^verbatim>\<open>./dist/a/b/api\<close> and a default export, the content of the ESM JS stub is the bare
  re-export line. It is not: the JS stub starts with the client directive.
\<close>

theorem esm_js_stub_counterexample:
  "modernJSContent (build_contents \<lparr>item_name = ''a/b/api'', item_file = ''./dist/a/b/api'',
       export_kind = JStr ''default export'', entry_point = JUndefined\<rparr>)
   \<noteq> ''export { default } from '../../dist/a/b/api.esm';\<newline>''"
  by (simp add: build_contents_def default_contents_def adjustedFile_eq)

text \<open>
  Claim C4, amended. For the descriptor whose only \<^verbatim>\<open>js-file\<close> item is that one, the
  run writes four files and logs a success. The bare re-export line is the content of the
  ESM declaration stub \<^verbatim>\<open>a/b/api.esm.d.ts\<close>; the ESM JS stub \<^verbatim>\<open>a/b/api.esm.js\<close>
  holds the same line after the line \<^verbatim>\<open>'use client';\<close>.
\<close>

theorem esm_stub_round_trip:
  "post_build pj dir
     \<lparr>js_file = Some [\<lparr>item_name = ''a/b/api'', item_file = ''./dist/a/b/api'',
        export_kind = JStr ''default export'', entry_point = e\<rparr>],
      static_file_list = sf, custom_config = cc\<rparr> w =
   console_log (Success ''a/b/api'')
     (ensureDirAndWriteFile (pj dir ''./a/b/api.esm.d.ts'')
        ''export { default } from '../../dist/a/b/api.esm';\<newline>''
     (ensureDirAndWriteFile (pj dir ''./a/b/api.d.ts'')
        ''export { default } from '../../dist/a/b/api';\<newline>''
     (ensureDirAndWriteFile (pj dir ''./a/b/api.esm.js'')
        '''use client';\<newline>export { default } from '../../dist/a/b/api.esm';\<newline>''
     (ensureDirAndWriteFile (pj dir ''./a/b/api.js'')
        '''use client';\<newline>module.exports = require('../../dist/a/b/api');\<newline>''
        w))))"
  by (simp add: post_build_def post_build_jsFiles_def generatePublicAPI_def generate_item_def
      Let_def build_contents_def default_contents_def adjustedFile_eq
      jsFilePath_def modernJSFilePath_def dtsFilePath_def modernDtsFilePath_def)

subsection \<open>Interface markers\<close>

text \<open>
  Claim C6 says that every interface marker of a named export shows as \<^verbatim>\<open>type\<close> and
  its name in both declaration stubs. A marker whose name is the empty string fails the
  test \<^verbatim>\<open>item.name\<close> and is skipped in the declaration list as well.
\<close>

theorem empty_interface_name_counterexample:
  "build_contents \<lparr>item_name = ''api'', item_file = ''./dist/api'',
       export_kind = JStr ''named export'',
       entry_point = JArr [JStr ''get'', JObj [(''type'', JStr ''interface''), (''name'', JStr '''')]]\<rparr>
   = \<lparr>modernJSContent = '''use client';\<newline>export { get } from './dist/api.esm';\<newline>'',
      oldJSContent = '''use client';\<newline>const { get } = require('./dist/api');\<newline>module.exports = { get };'',
      modernDTSContent = ''export { get } from './dist/api.esm';\<newline>'',
      dtsContent = ''export { get } from './dist/api';\<newline>''\<rparr>"
  by (simp add: build_contents_def named_contents_def adjustedFile_eq
      formattedEntryPointNonType_def formattedEntryPointDTS_def nontype_step_def dts_step_def
      is_interface_def)

text \<open>
  Claim C6, amended. For a named export whose \<^verbatim>\<open>entry-point\<close> array has an interface
  marker with a non-empty string name \<open>n\<close>: the two declaration stubs export the
  declaration list, in which \<^verbatim>\<open>type\<close> \<open>n\<close> occurs; the two JS stubs export the value
  list, every element of which is a string element of the array, so no marker
  contributes to it; every non-empty string element of the array occurs in both lists.
\<close>

theorem interface_items_in_declarations_only:
  assumes "export_kind item = JStr ''named export''"
    and "entry_point item = JArr ep"
    and "JObj ps \<in> set ep"
    and "map_of ps ''type'' = Some (JStr ''interface'')"
    and "map_of ps ''name'' = Some (JStr n)"
    and "n \<noteq> []"
  shows "build_contents item =
      \<lparr>modernJSContent =
         '''use client';\<newline>export { '' @ join '', '' (value_list ep) @ '' } from '' @ sq
         @ adjustedFile (item_name item) (item_file item) @ ''.esm';\<newline>'',
       oldJSContent =
         '''use client';\<newline>const { '' @ join '', '' (value_list ep) @ '' } = require('' @ sq
         @ adjustedFile (item_name item) (item_file item)
         @ ''');\<newline>module.exports = { '' @ join '', '' (value_list ep) @ '' };'',
       modernDTSContent =
         ''export { '' @ join '', '' (declaration_list ep) @ '' } from '' @ sq
         @ adjustedFile (item_name item) (item_file item) @ ''.esm';\<newline>'',
       dtsContent =
         ''export { '' @ join '', '' (declaration_list ep) @ '' } from '' @ sq
         @ adjustedFile (item_name item) (item_file item) @ ''';\<newline>''\<rparr>
    \<and> ''type '' @ n \<in> set (declaration_list ep)
    \<and> (\<forall>s\<in>set (value_list ep). JStr s \<in> set ep)
    \<and> (\<forall>s. JStr s \<in> set ep \<and> s \<noteq> [] \<longrightarrow> s \<in> set (declaration_list ep) \<and> s \<in> set (value_list ep))"
proof -
  have ne: "ep \<noteq> []" using assms(3) by auto
  have c: "build_contents item = named_contents (adjustedFile (item_name item) (item_file item)) ep"
    using assms(1,2) ne by (simp add: build_contents_def Let_def)
  have i: "is_interface ps = Some n"
    using assms(4-6) by (simp add: is_interface_Some)
  have "build_contents item =
      \<lparr>modernJSContent =
         '''use client';\<newline>export { '' @ join '', '' (value_list ep) @ '' } from '' @ sq
         @ adjustedFile (item_name item) (item_file item) @ ''.esm';\<newline>'',
       oldJSContent =
         '''use client';\<newline>const { '' @ join '', '' (value_list ep) @ '' } = require('' @ sq
         @ adjustedFile (item_name item) (item_file item)
         @ ''');\<newline>module.exports = { '' @ join '', '' (value_list ep) @ '' };'',
       modernDTSContent =
         ''export { '' @ join '', '' (declaration_list ep) @ '' } from '' @ sq
         @ adjustedFile (item_name item) (item_file item) @ ''.esm';\<newline>'',
       dtsContent =
         ''export { '' @ join '', '' (declaration_list ep) @ '' } from '' @ sq
         @ adjustedFile (item_name item) (item_file item) @ ''';\<newline>''\<rparr>"
    by (simp add: c named_contents_def Let_def formattedEntryPointDTS_eq
        formattedEntryPointNonType_eq)
  then show ?thesis
    using declaration_list_interface [OF assms(3) i] value_list_plain [of _ ep]
      declaration_list_plain [of _ ep]
    by blast
qed

theorem interface_items_in_declarations_only_witness:
  "build_contents \<lparr>item_name = ''api'', item_file = ''./dist/api'',
       export_kind = JStr ''named export'',
       entry_point = JArr [JStr ''get'',
         JObj [(''type'', JStr ''interface''), (''name'', JStr ''Options'')], JStr ''post'']\<rparr>
   = \<lparr>modernJSContent = '''use client';\<newline>export { get, post } from './dist/api.esm';\<newline>'',
      oldJSContent = '''use client';\<newline>const { get, post } = require('./dist/api');\<newline>module.exports = { get, post };'',
      modernDTSContent = ''export { get, type Options, post } from './dist/api.esm';\<newline>'',
      dtsContent = ''export { get, type Options, post } from './dist/api';\<newline>''\<rparr>"
  using interface_items_in_declarations_only [of
      "\<lparr>item_name = ''api'', item_file = ''./dist/api'',
       export_kind = JStr ''named export'',
       entry_point = JArr [JStr ''get'',
         JObj [(''type'', JStr ''interface''), (''name'', JStr ''Options'')], JStr ''post'']\<rparr>"
      "[JStr ''get'', JObj [(''type'', JStr ''interface''), (''name'', JStr ''Options'')],
        JStr ''post'']"
      "[(''type'', JStr ''interface''), (''name'', JStr ''Options'')]" "''Options''"]
  by (simp add: value_list_def declaration_list_def List.map_filter_simps is_interface_def
      adjustedFile_eq)

subsection \<open>Items that get no stubs\<close>

text \<open>
  Claim C3 says that a named export whose \<^verbatim>\<open>entry-point\<close> is malformed writes none of
  its four files. The generator only asks for a non-empty array: when no element of the
  array is a string or an interface marker, both lists are empty, the four contents are
  not, and the four files are written with an empty export list.
\<close>

theorem malformed_entry_point_counterexample:
  "generate_item simple_join ''/pkg''
     \<lparr>item_name = ''x'', item_file = ''./dist/x'', export_kind = JStr ''named export'',
      entry_point = JArr [JNum 42]\<rparr> empty_world
   = \<lparr>fs = [''/pkg/x.js'' \<mapsto> '''use client';\<newline>const {  } = require('./dist/x');\<newline>module.exports = {  };'',
            ''/pkg/x.esm.js'' \<mapsto> '''use client';\<newline>export {  } from './dist/x.esm';\<newline>'',
            ''/pkg/x.d.ts'' \<mapsto> ''export {  } from './dist/x';\<newline>'',
            ''/pkg/x.esm.d.ts'' \<mapsto> ''export {  } from './dist/x.esm';\<newline>''],
       console = [Success ''x'']\<rparr>"
  by (simp add: generate_item_def Let_def build_contents_def named_contents_def adjustedFile_eq
      formattedEntryPointNonType_def formattedEntryPointDTS_def nontype_step_def dts_step_def
      jsFilePath_def modernJSFilePath_def dtsFilePath_def modernDtsFilePath_def simple_join_def
      console_log_def ensureDirAndWriteFile_def empty_world_def)

text \<open>
  Claim C3, amended. An item whose kind is neither \<^verbatim>\<open>default export\<close> nor
  \<^verbatim>\<open>named export\<close>, or whose kind is \<^verbatim>\<open>named export\<close> with an
  \<^verbatim>\<open>entry-point\<close> that is the empty array or no array at all, writes no file and
  logs a failure. The items before and after it are processed as usual, and the files at
  the end of the run are those of the run without the item. The generator has no raising
  branch for an item with a string name and a string file.
\<close>

theorem unsupported_entry_skipped:
  assumes "(export_kind item \<noteq> JStr ''default export'' \<and> export_kind item \<noteq> JStr ''named export'')
     \<or> (export_kind item = JStr ''named export''
         \<and> (entry_point item = JArr [] \<or> (\<forall>ep. entry_point item \<noteq> JArr ep)))"
  shows "generate_item pj dir item w = console_log (Failured (item_name item)) w
     \<and> generatePublicAPI pj dir (before @ item # after) w =
         generatePublicAPI pj dir after
           (console_log (Failured (item_name item)) (generatePublicAPI pj dir before w))
     \<and> fs (generatePublicAPI pj dir (before @ item # after) w) =
         fs (generatePublicAPI pj dir (before @ after) w)"
proof -
  have skip: "generate_item pj dir item v = console_log (Failured (item_name item)) v" for v
    using build_contents_unsupported [OF assms]
    by (simp add: generate_item_def Let_def no_contents_def)
  have run: "generatePublicAPI pj dir (before @ item # after) w =
         generatePublicAPI pj dir after
           (console_log (Failured (item_name item)) (generatePublicAPI pj dir before w))"
    by (simp add: generatePublicAPI_append generatePublicAPI_Cons skip)
  have "fs (console_log (Failured (item_name item)) (generatePublicAPI pj dir before w))
      = fs (generatePublicAPI pj dir before w)"
    by (simp add: console_log_def)
  then have "fs (generatePublicAPI pj dir (before @ item # after) w) =
         fs (generatePublicAPI pj dir (before @ after) w)"
    unfolding run generatePublicAPI_append [of pj dir before after]
    by (rule generatePublicAPI_fs_cong)
  with skip run show ?thesis by simp
qed

theorem unsupported_entry_skipped_witness:
  "generate_item simple_join ''/pkg''
       \<lparr>item_name = ''x'', item_file = ''./dist/x'', export_kind = JStr ''re-export'',
        entry_point = JUndefined\<rparr> empty_world
     = \<lparr>fs = Map.empty, console = [Failured ''x'']\<rparr>
   \<and> generatePublicAPI simple_join ''/pkg''
       [\<lparr>item_name = ''x'', item_file = ''./dist/x'', export_kind = JStr ''re-export'',
         entry_point = JUndefined\<rparr>,
        \<lparr>item_name = ''y'', item_file = ''./dist/y'', export_kind = JStr ''default export'',
         entry_point = JUndefined\<rparr>] empty_world
     = \<lparr>fs = [''/pkg/y.js'' \<mapsto> '''use client';\<newline>module.exports = require('./dist/y');\<newline>'',
              ''/pkg/y.esm.js'' \<mapsto> '''use client';\<newline>export { default } from './dist/y.esm';\<newline>'',
              ''/pkg/y.d.ts'' \<mapsto> ''export { default } from './dist/y';\<newline>'',
              ''/pkg/y.esm.d.ts'' \<mapsto> ''export { default } from './dist/y.esm';\<newline>''],
         console = [Failured ''x'', Success ''y'']\<rparr>"
proof -
  let ?bad = "\<lparr>item_name = ''x'', item_file = ''./dist/x'', export_kind = JStr ''re-export'',
        entry_point = JUndefined\<rparr>"
  let ?good = "\<lparr>item_name = ''y'', item_file = ''./dist/y'',
        export_kind = JStr ''default export'', entry_point = JUndefined\<rparr>"
  have h: "(export_kind ?bad \<noteq> JStr ''default export'' \<and> export_kind ?bad \<noteq> JStr ''named export'')
     \<or> (export_kind ?bad = JStr ''named export''
         \<and> (entry_point ?bad = JArr [] \<or> (\<forall>ep. entry_point ?bad \<noteq> JArr ep)))"
    by simp
  have skip: "generate_item simple_join ''/pkg'' ?bad empty_world
      = console_log (Failured (item_name ?bad)) empty_world"
    and run: "generatePublicAPI simple_join ''/pkg'' ([] @ ?bad # [?good]) empty_world
      = generatePublicAPI simple_join ''/pkg'' [?good]
          (console_log (Failured (item_name ?bad))
            (generatePublicAPI simple_join ''/pkg'' [] empty_world))"
    using unsupported_entry_skipped [OF h, of simple_join "''/pkg''" empty_world "[]" "[?good]"]
    by blast+
  have logged: "console_log (Failured (item_name ?bad)) empty_world
      = \<lparr>fs = Map.empty, console = [Failured ''x'']\<rparr>"
    by (simp add: console_log_def empty_world_def)
  have rest: "generatePublicAPI simple_join ''/pkg'' [?good]
        \<lparr>fs = Map.empty, console = [Failured ''x'']\<rparr>
     = \<lparr>fs = [''/pkg/y.js'' \<mapsto> '''use client';\<newline>module.exports = require('./dist/y');\<newline>'',
              ''/pkg/y.esm.js'' \<mapsto> '''use client';\<newline>export { default } from './dist/y.esm';\<newline>'',
              ''/pkg/y.d.ts'' \<mapsto> ''export { default } from './dist/y';\<newline>'',
              ''/pkg/y.esm.d.ts'' \<mapsto> ''export { default } from './dist/y.esm';\<newline>''],
         console = [Failured ''x'', Success ''y'']\<rparr>"
    by (simp add: generatePublicAPI_def generate_item_def Let_def build_contents_def
        default_contents_def adjustedFile_eq jsFilePath_def modernJSFilePath_def
        dtsFilePath_def modernDtsFilePath_def simple_join_def console_log_def
        ensureDirAndWriteFile_def)
  have start: "generatePublicAPI simple_join ''/pkg'' [] empty_world = empty_world"
    by (simp add: generatePublicAPI_def)
  from skip logged have one: "generate_item simple_join ''/pkg'' ?bad empty_world
      = \<lparr>fs = Map.empty, console = [Failured ''x'']\<rparr>"
    by (simp only:)
  from run have "generatePublicAPI simple_join ''/pkg'' [?bad, ?good] empty_world
      = generatePublicAPI simple_join ''/pkg'' [?good]
          \<lparr>fs = Map.empty, console = [Failured ''x'']\<rparr>"
    by (simp only: start logged append.simps)
  with rest one show ?thesis by (simp only:) 
qed

section \<open>Properties of the manifest writer\<close>

subsection \<open>Auxiliary facts\<close>

lemma map_of_set_property_same:
  "k \<noteq> ''__proto__'' \<Longrightarrow> map_of (set_property k v obj) k = Some v"
  by (simp add: set_property_def update_conv')

lemma map_of_set_property_other:
  "k' \<noteq> k \<Longrightarrow> map_of (set_property k v obj) k' = map_of obj k'"
  by (simp add: set_property_def update_conv')

lemma files_fold_apply_custom:
  "files (fold apply_custom cc e) = files e @ concat (map files_config cc)"
  by (induction cc arbitrary: e) (simp_all add: apply_custom_def)

lemma files_fold_apply_static: "files (fold apply_static sf e) = files e"
  by (induction sf arbitrary: e) (simp_all add: apply_static_def)

lemma files_fold_apply_js:
  "files (fold apply_js js e) = files e @ concat (map generated_names js)"
  by (induction js arbitrary: e) (simp_all add: apply_js_def)

lemma exports_apply_js_other:
  assumes "k \<noteq> ''./'' @ item_name item" and "k \<noteq> ''./'' @ item_name item @ ''.cjs''"
  shows "map_of (exports (apply_js item e)) k = map_of (exports e) k"
  using assms by (simp add: apply_js_def map_of_set_property_other)

lemma exports_fold_apply_js_other:
  assumes "\<forall>item\<in>set js. k \<noteq> ''./'' @ item_name item \<and> k \<noteq> ''./'' @ item_name item @ ''.cjs''"
  shows "map_of (exports (fold apply_js js e)) k = map_of (exports e) k"
  using assms by (induction js arbitrary: e) (simp_all add: exports_apply_js_other)

lemma exports_apply_js_same:
  "map_of (exports (apply_js item e)) (''./'' @ item_name item) = Some (esm_conditions (item_name item))
   \<and> map_of (exports (apply_js item e)) (''./'' @ item_name item @ ''.cjs'')
       = Some (cjs_conditions (item_name item))"
  by (simp add: apply_js_def map_of_set_property_other map_of_set_property_same)

lemma exports_fold_apply_js_entry:
  assumes "nm \<in> item_name ` set js"
    and "\<forall>a\<in>set js. \<forall>b\<in>set js. item_name a \<noteq> item_name b @ ''.cjs''"
  shows "map_of (exports (fold apply_js js e)) (''./'' @ nm) = Some (esm_conditions nm)
   \<and> map_of (exports (fold apply_js js e)) (''./'' @ nm @ ''.cjs'') = Some (cjs_conditions nm)"
  using assms
proof (induction js arbitrary: e)
  case Nil
  then show ?case by simp
next
  case (Cons x xs)
  show ?case
  proof (cases "nm \<in> item_name ` set xs")
    case True
    then show ?thesis using Cons.IH [of "apply_js x e"] Cons.prems(2) by simp
  next
    case False
    with Cons.prems(1) have nm: "nm = item_name x" by auto
    have other: "\<forall>item\<in>set xs. ''./'' @ nm \<noteq> ''./'' @ item_name item
        \<and> ''./'' @ nm \<noteq> ''./'' @ item_name item @ ''.cjs''"
      using False Cons.prems(2) nm by auto
    have other': "\<forall>item\<in>set xs. ''./'' @ nm @ ''.cjs'' \<noteq> ''./'' @ item_name item
        \<and> ''./'' @ nm @ ''.cjs'' \<noteq> ''./'' @ item_name item @ ''.cjs''"
      using False Cons.prems(2) nm by auto
    show ?thesis
      using exports_fold_apply_js_other [OF other, of "apply_js x e"]
        exports_fold_apply_js_other [OF other', of "apply_js x e"]
        exports_apply_js_same [of x e] nm
      by simp
  qed
qed

lemma filter_update_owned:
  assumes "k = ''files'' \<or> k = ''exports''"
  shows "filter (\<lambda>kv. fst kv \<noteq> ''files'' \<and> fst kv \<noteq> ''exports'') (AList.update k v al)
     = filter (\<lambda>kv. fst kv \<noteq> ''files'' \<and> fst kv \<noteq> ''exports'') al"
  using assms by (induction al) auto

subsection \<open>The rewritten metadata\<close>

text \<open>
  Claim C2 says that after the rewrite every \<^verbatim>\<open>js-file\<close> item \<open>n\<close> finds its two
  condition objects under \<^verbatim>\<open>./n\<close> and \<^verbatim>\<open>./n.cjs\<close>. The keys of two items collide
  when one is named \<^verbatim>\<open>a\<close> and the other \<^verbatim>\<open>a.cjs\<close>: the later assignment wins, and
  \<^verbatim>\<open>./a.cjs\<close> ends with the ESM conditions of the item \<^verbatim>\<open>a.cjs\<close>, not with the
  CommonJS conditions of the item \<^verbatim>\<open>a\<close>.
\<close>

theorem cjs_key_collision_counterexample:
  "registerExposedFiles (Some []) (Some [])
     (Some [\<lparr>item_name = ''a'', item_file = ''./dist/a'', export_kind = JStr ''default export'',
             entry_point = JUndefined\<rparr>,
            \<lparr>item_name = ''a.cjs'', item_file = ''./dist/a.cjs'',
             export_kind = JStr ''default export'', entry_point = JUndefined\<rparr>]) []
   = Inr [(''files'', JArr (map JStr [''dist'', ''a.js'', ''a.d.ts'', ''a.esm.js'', ''a.esm.d.ts'',
            ''a.cjs.js'', ''a.cjs.d.ts'', ''a.cjs.esm.js'', ''a.cjs.esm.d.ts''])),
          (''exports'', JObj
            [(''./a'', JObj [(''import'', JStr ''./a.esm.js''), (''require'', JStr ''./a.esm.js''),
                            (''types'', JStr ''./a.d.ts'')]),
             (''./a.cjs'', JObj [(''import'', JStr ''./a.cjs.esm.js''),
                                (''require'', JStr ''./a.cjs.esm.js''),
                                (''types'', JStr ''./a.cjs.d.ts'')]),
             (''./a.cjs.cjs'', JObj [(''import'', JStr ''./a.cjs.js''),
                                    (''require'', JStr ''./a.cjs.js''),
                                    (''types'', JStr ''./a.cjs.d.ts'')])])]"
  by (simp add: registerExposedFiles_def Let_def apply_js_def set_property_def
      initial_exposed_def esm_conditions_def cjs_conditions_def generated_names_def)

text \<open>
  Claim C2, amended. When no \<^verbatim>\<open>js-file\<close> name is another \<^verbatim>\<open>js-file\<close> name
  followed by \<^verbatim>\<open>.cjs\<close>, the rewrite succeeds on three present lists and gives:
  \<^verbatim>\<open>files\<close> is \<^verbatim>\<open>dist\<close>, then the \<^verbatim>\<open>files-config\<close> of the custom entries in
  order, then the four generated names of each \<^verbatim>\<open>js-file\<close> item in order;
  \<^verbatim>\<open>exports\<close> holds for every \<^verbatim>\<open>js-file\<close> item \<open>n\<close> the ESM conditions under
  \<^verbatim>\<open>./n\<close> and the CommonJS conditions under \<^verbatim>\<open>./n.cjs\<close>, whatever the custom and
  static entries wrote there before; every other key holds what the custom entries and
  then the static entries left, starting from the empty object.
\<close>

theorem manifest_rewrite:
  assumes "\<forall>a\<in>set js. \<forall>b\<in>set js. item_name a \<noteq> item_name b @ ''.cjs''"
  shows "\<exists>out ex.
     registerExposedFiles (Some cc) (Some sf) (Some js) pkg = Inr out
   \<and> map_of out ''files'' =
       Some (JArr (map JStr (''dist'' # concat (map files_config cc)
                              @ concat (map generated_names js))))
   \<and> map_of out ''exports'' = Some (JObj ex)
   \<and> (\<forall>item\<in>set js.
         map_of ex (''./'' @ item_name item) =
           Some (JObj [(''import'', JStr (''./'' @ item_name item @ ''.esm.js'')),
                       (''require'', JStr (''./'' @ item_name item @ ''.esm.js'')),
                       (''types'', JStr (''./'' @ item_name item @ ''.d.ts''))])
       \<and> map_of ex (''./'' @ item_name item @ ''.cjs'') =
           Some (JObj [(''import'', JStr (''./'' @ item_name item @ ''.js'')),
                       (''require'', JStr (''./'' @ item_name item @ ''.js'')),
                       (''types'', JStr (''./'' @ item_name item @ ''.d.ts''))]))
   \<and> (\<forall>k. (\<forall>item\<in>set js. k \<noteq> ''./'' @ item_name item \<and> k \<noteq> ''./'' @ item_name item @ ''.cjs'')
         \<longrightarrow> map_of ex k = map_of (exports (fold apply_static sf (fold apply_custom cc
                   \<lparr>files = [''dist''], exports = []\<rparr>))) k)"
proof -
  define e0 where "e0 = fold apply_static sf (fold apply_custom cc initial_exposed)"
  define e where "e = fold apply_js js e0"
  define out where "out = AList.update ''exports'' (JObj (exports e))
      (AList.update ''files'' (JArr (map JStr (files e))) pkg)"
  have run: "registerExposedFiles (Some cc) (Some sf) (Some js) pkg = Inr out"
    by (simp add: registerExposedFiles_def Let_def out_def e_def e0_def)
  have fl: "files e = ''dist'' # concat (map files_config cc) @ concat (map generated_names js)"
    by (simp add: e_def e0_def files_fold_apply_js files_fold_apply_static
        files_fold_apply_custom initial_exposed_def)
  have f: "map_of out ''files'' = Some (JArr (map JStr (files e)))"
    by (simp add: out_def update_conv')
  have x: "map_of out ''exports'' = Some (JObj (exports e))"
    by (simp add: out_def update_conv')
  have entries: "\<forall>item\<in>set js.
      map_of (exports e) (''./'' @ item_name item) = Some (esm_conditions (item_name item))
    \<and> map_of (exports e) (''./'' @ item_name item @ ''.cjs'') = Some (cjs_conditions (item_name item))"
    using exports_fold_apply_js_entry [OF _ assms, of _ e0] unfolding e_def by blast
  have rest: "\<forall>k. (\<forall>item\<in>set js. k \<noteq> ''./'' @ item_name item \<and> k \<noteq> ''./'' @ item_name item @ ''.cjs'')
         \<longrightarrow> map_of (exports e) k = map_of (exports e0) k"
    unfolding e_def using exports_fold_apply_js_other by blast
  show ?thesis
    using run f x entries rest unfolding fl
    by (intro exI [of _ out] exI [of _ "exports e"])
      (simp add: esm_conditions_def cjs_conditions_def e0_def initial_exposed_def)
qed

theorem manifest_rewrite_witness:
  "(\<exists>out ex.
       registerExposedFiles
         (Some [\<lparr>custom_name = ''.'', export_config = JStr ''./dist/index.js'',
                 files_config = [''index.js'']\<rparr>])
         (Some [\<lparr>static_name = ''styles'', static_file = ''./dist/styles.css''\<rparr>])
         (Some [\<lparr>item_name = ''utils/api'', item_file = ''./dist/utils/api'',
                 export_kind = JStr ''default export'', entry_point = JUndefined\<rparr>])
         [(''name'', JStr ''pkg'')] = Inr out
     \<and> map_of out ''files'' =
         Some (JArr (map JStr [''dist'', ''index.js'', ''utils/api.js'', ''utils/api.d.ts'',
                 ''utils/api.esm.js'', ''utils/api.esm.d.ts'']))
     \<and> map_of out ''exports'' = Some (JObj ex)
     \<and> map_of ex ''./utils/api'' =
         Some (JObj [(''import'', JStr ''./utils/api.esm.js''),
                     (''require'', JStr ''./utils/api.esm.js''),
                     (''types'', JStr ''./utils/api.d.ts'')])
     \<and> map_of ex ''./utils/api.cjs'' =
         Some (JObj [(''import'', JStr ''./utils/api.js''),
                     (''require'', JStr ''./utils/api.js''),
                     (''types'', JStr ''./utils/api.d.ts'')]))"
proof -
  have h: "\<forall>a\<in>set [\<lparr>item_name = ''utils/api'', item_file = ''./dist/utils/api'',
                export_kind = JStr ''default export'', entry_point = JUndefined\<rparr>].
      \<forall>b\<in>set [\<lparr>item_name = ''utils/api'', item_file = ''./dist/utils/api'',
                export_kind = JStr ''default export'', entry_point = JUndefined\<rparr>].
        item_name a \<noteq> item_name b @ ''.cjs''"
    by simp
  from manifest_rewrite [OF h, of
      "[\<lparr>custom_name = ''.'', export_config = JStr ''./dist/index.js'',
                 files_config = [''index.js'']\<rparr>]"
      "[\<lparr>static_name = ''styles'', static_file = ''./dist/styles.css''\<rparr>]"
      "[(''name'', JStr ''pkg'')]"]
  obtain out ex where
    "registerExposedFiles
         (Some [\<lparr>custom_name = ''.'', export_config = JStr ''./dist/index.js'',
                 files_config = [''index.js'']\<rparr>])
         (Some [\<lparr>static_name = ''styles'', static_file = ''./dist/styles.css''\<rparr>])
         (Some [\<lparr>item_name = ''utils/api'', item_file = ''./dist/utils/api'',
                 export_kind = JStr ''default export'', entry_point = JUndefined\<rparr>])
         [(''name'', JStr ''pkg'')] = Inr out
     \<and> map_of out ''files'' =
         Some (JArr (map JStr [''dist'', ''index.js'', ''utils/api.js'', ''utils/api.d.ts'',
                 ''utils/api.esm.js'', ''utils/api.esm.d.ts'']))
     \<and> map_of out ''exports'' = Some (JObj ex)
     \<and> map_of ex ''./utils/api'' =
         Some (JObj [(''import'', JStr ''./utils/api.esm.js''),
                     (''require'', JStr ''./utils/api.esm.js''),
                     (''types'', JStr ''./utils/api.d.ts'')])
     \<and> map_of ex ''./utils/api.cjs'' =
         Some (JObj [(''import'', JStr ''./utils/api.js''),
                     (''require'', JStr ''./utils/api.js''),
                     (''types'', JStr ''./utils/api.d.ts'')])"
    by (auto simp add: generated_names_def)
  then show ?thesis by blast
qed

subsection \<open>The fields the writer does not own\<close>

text \<open>
  Claim C8. Whenever the rewrite produces a metadata object, every key other than
  \<^verbatim>\<open>files\<close> and \<^verbatim>\<open>exports\<close> has the value it had in the input, and the
  properties other than these two are the same list, in the same order.
\<close>

theorem other_fields_unchanged:
  assumes "registerExposedFiles customConfig staticFiles jsFiles pkg = Inr out"
  shows "(\<forall>k. k \<noteq> ''files'' \<and> k \<noteq> ''exports'' \<longrightarrow> map_of out k = map_of pkg k)
    \<and> filter (\<lambda>kv. fst kv \<noteq> ''files'' \<and> fst kv \<noteq> ''exports'') out
      = filter (\<lambda>kv. fst kv \<noteq> ''files'' \<and> fst kv \<noteq> ''exports'') pkg"
proof -
  obtain f x where out: "out = AList.update ''exports'' x (AList.update ''files'' f pkg)"
    using assms by (auto simp add: registerExposedFiles_def Let_def split: option.splits)
  have "map_of out k = map_of pkg k" if "k \<noteq> ''files'' \<and> k \<noteq> ''exports''" for k
    using that by (simp add: out update_conv')
  moreover have "filter (\<lambda>kv. fst kv \<noteq> ''files'' \<and> fst kv \<noteq> ''exports'') out
      = filter (\<lambda>kv. fst kv \<noteq> ''files'' \<and> fst kv \<noteq> ''exports'') pkg"
    unfolding out by (simp only: filter_update_owned simp_thms)
  ultimately show ?thesis by blast
qed

theorem other_fields_unchanged_witness:
  "registerExposedFiles (Some []) (Some []) (Some [])
     [(''name'', JStr ''pkg''), (''files'', JArr [JStr ''old'']), (''version'', JStr ''1.0.0'')]
   = Inr [(''name'', JStr ''pkg''), (''files'', JArr [JStr ''dist'']),
          (''version'', JStr ''1.0.0''), (''exports'', JObj [])]
   \<and> map_of [(''name'', JStr ''pkg''), (''files'', JArr [JStr ''dist'']),
          (''version'', JStr ''1.0.0''), (''exports'', JObj [])] ''version''
     = map_of [(''name'', JStr ''pkg''), (''files'', JArr [JStr ''old'']),
          (''version'', JStr ''1.0.0'')] ''version''"
proof -
  have run: "registerExposedFiles (Some []) (Some []) (Some [])
     [(''name'', JStr ''pkg''), (''files'', JArr [JStr ''old'']), (''version'', JStr ''1.0.0'')]
   = Inr [(''name'', JStr ''pkg''), (''files'', JArr [JStr ''dist'']),
          (''version'', JStr ''1.0.0''), (''exports'', JObj [])]"
    by (simp add: registerExposedFiles_def Let_def initial_exposed_def)
  from other_fields_unchanged [OF run] have "map_of [(''name'', JStr ''pkg''), (''files'', JArr [JStr ''dist'']),
          (''version'', JStr ''1.0.0''), (''exports'', JObj [])] ''version''
     = map_of [(''name'', JStr ''pkg''), (''files'', JArr [JStr ''old'']),
          (''version'', JStr ''1.0.0'')] ''version''"
    by simp
  with run show ?thesis by blast
qed

subsection \<open>Absent lists\<close>

text \<open>
  Claim C7 says that an absent list is read as the empty list and that both tools then
  run without error. \<^verbatim>\<open>post-build.cjs\<close> does so for \<^verbatim>\<open>js-file\<close>, the only list it
  reads. \<^verbatim>\<open>sync-file.cjs\<close> has no default: with no list at all both of its functions
  raise, and with only \<^verbatim>\<open>custom-config\<close> or only \<^verbatim>\<open>static-file\<close> missing the
  ignore file is rewritten and the metadata rewrite raises.
\<close>

theorem absent_lists_raise:
  "sync_file \<lparr>js_file = None, static_file_list = None, custom_config = None\<rparr> content pkg
     = (Inl TypeError, Inl TypeError)
   \<and> sync_file \<lparr>js_file = Some js, static_file_list = Some sf, custom_config = None\<rparr>
       content pkg
     = (Inr (join [NL] (filter_lines False (split_on NL content) @ generated_section js)),
        Inl TypeError)
   \<and> sync_file \<lparr>js_file = Some js, static_file_list = None, custom_config = Some cc\<rparr>
       content pkg
     = (Inr (join [NL] (filter_lines False (split_on NL content) @ generated_section js)),
        Inl TypeError)
   \<and> post_build pj dir \<lparr>js_file = None, static_file_list = None, custom_config = None\<rparr> w
     = w"
  by (simp add: sync_file_def registerGITIgnoreFiles_def registerExposedFiles_def Let_def
      post_build_def post_build_jsFiles_def generatePublicAPI_def)

section \<open>Properties of the command line\<close>

lemma split_on_not_Nil: "split_on c s \<noteq> []"
  by (induction s) (auto split: list.splits)

lemma first_occurrence_Cons:
  "first_occurrence k (a # argv) =
     (if arg_key a = k then Some (arg_value a) else first_occurrence k argv)"
  by (simp add: first_occurrence_def)

lemma map_of_argument_step:
  assumes "k \<noteq> ''__proto__''"
  shows "map_of (argument_step result current) k =
     (case map_of result k of
        Some v \<Rightarrow> Some v
      | None \<Rightarrow> if arg_key current = k then Some (arg_value current) else None)"
proof (cases "hasOwnProperty result (arg_key current)")
  case True
  then have "map_of result (arg_key current) \<noteq> None"
    by (simp add: hasOwnProperty_def map_of_eq_None_iff)
  with True show ?thesis
    by (auto simp add: argument_step_def Let_def arg_key_def split: option.splits)
next
  case False
  then have none: "map_of result (arg_key current) = None"
    by (simp add: hasOwnProperty_def map_of_eq_None_iff)
  have step: "argument_step result current
      = set_property (arg_key current) (arg_value current) result"
    using False by (simp add: argument_step_def Let_def arg_key_def arg_value_def)
  show ?thesis
    using assms none unfolding step
    by (auto simp add: set_property_def update_conv' split: option.splits)
qed

lemma map_of_foldl_argument_step:
  assumes "k \<noteq> ''__proto__''"
  shows "map_of (foldl argument_step result argv) k =
     (case map_of result k of Some v \<Rightarrow> Some v | None \<Rightarrow> first_occurrence k argv)"
proof (induction argv arbitrary: result)
  case Nil
  then show ?case by (simp add: first_occurrence_def split: option.splits)
next
  case (Cons a argv)
  show ?case
    by (simp add: Cons.IH map_of_argument_step [OF assms] first_occurrence_Cons
        split: option.splits)
qed

lemma first_occurrence_split:
  assumes "\<forall>b\<in>set pre. arg_key b \<noteq> k" and "arg_key a = k"
  shows "first_occurrence k (pre @ a # post) = Some (arg_value a)"
  using assms by (induction pre) (simp_all add: first_occurrence_Cons)

text \<open>
  Claim C9. For every key other than \<^verbatim>\<open>__proto__\<close> (so for every key that starts
  with \<^verbatim>\<open>--\<close>), the parsed object holds the value of the first argument with that key:
  when an argument with the key follows arguments with other keys, its value is the one
  kept, whatever comes after it.
\<close>

theorem first_flag_wins:
  assumes "k \<noteq> ''__proto__''"
  shows "map_of (argument argv) k = first_occurrence k argv
    \<and> ((\<forall>b\<in>set pre. arg_key b \<noteq> k) \<and> arg_key a = k \<longrightarrow>
         map_of (argument (pre @ a # post)) k = Some (arg_value a))"
proof -
  have first: "map_of (argument xs) k = first_occurrence k xs" for xs
    using map_of_foldl_argument_step [OF assms, of "[]" xs] by (simp add: argument_def)
  show ?thesis
    using first [of argv] first [of "pre @ a # post"] first_occurrence_split [of pre k a post]
    by simp
qed

theorem first_flag_wins_witness:
  "map_of (argument [''--watch'', ''--file-name=@scope/first'', ''--file-name=@scope/second''])
     ''--file-name'' = Some (Some ''@scope/first'')"
proof -
  have k: "''--file-name'' \<noteq> ''__proto__''" by simp
  have pre: "\<forall>b\<in>set [''--watch'']. arg_key b \<noteq> ''--file-name''"
    by (simp add: arg_key_def)
  have a: "arg_key ''--file-name=@scope/first'' = ''--file-name''"
    by (simp add: arg_key_def)
  have v: "arg_value ''--file-name=@scope/first'' = Some ''@scope/first''"
    by (simp add: arg_value_def)
  from first_flag_wins [OF k, of _ "[''--watch'']" "''--file-name=@scope/first''"
      "[''--file-name=@scope/second'']"] pre a
  have "map_of (argument ([''--watch''] @ ''--file-name=@scope/first''
      # [''--file-name=@scope/second''])) ''--file-name''
    = Some (arg_value ''--file-name=@scope/first'')"
    by blast
  then show ?thesis by (simp only: v append.simps)
qed

section \<open>Properties of the ignore file rewrite\<close>

subsection \<open>Auxiliary facts\<close>

lemma filter_lines_subset:
  "l \<in> set (filter_lines b ls) \<Longrightarrow>
     l \<in> set ls \<and> \<not> includes_str l GIT_IGNORE_START_LINE \<and> \<not> includes_str l GIT_IGNORE_END_LINE"
  by (induction b ls rule: filter_lines.induct) (auto split: if_splits)

lemma filter_lines_open_section:
  "\<forall>l\<in>set ls. \<not> includes_str l GIT_IGNORE_END_LINE \<Longrightarrow> filter_lines True ls = []"
  by (induction ls) simp_all

lemma filter_lines_unterminated:
  assumes "includes_str s GIT_IGNORE_START_LINE"
    and "\<forall>l\<in>set post. \<not> includes_str l GIT_IGNORE_END_LINE"
  shows "filter_lines b (pre @ s # post) = filter_lines b pre"
  using assms by (induction b pre rule: filter_lines.induct) (simp_all add: filter_lines_open_section)

lemma startsWith_prefix: "startsWith s m \<longleftrightarrow> prefix m s"
  by (induction s m rule: startsWith.induct) auto

lemma includes_str_sublist: "includes_str s m \<longleftrightarrow> sublist m s"
proof (induction s)
  case Nil
  then show ?case by simp
next
  case (Cons c cs)
  show ?case
  proof (cases m)
    case Nil
    then show ?thesis by simp
  next
    case (Cons a as)
    then show ?thesis
      using Cons.IH by (simp add: startsWith_prefix sublist_Cons_right del: startsWith.simps)
  qed
qed

lemma includes_str_refl: "includes_str s s"
  by (simp add: includes_str_sublist)

lemma split_on_append_sep: "split_on c (a @ c # b) = split_on c a @ split_on c b"
proof (induction a)
  case Nil
  then show ?case by simp
next
  case (Cons x a)
  then show ?case using split_on_not_Nil [of c a] by (cases "split_on c a") auto
qed

lemma split_on_join:
  "xs \<noteq> [] \<Longrightarrow> split_on c (join [c] xs) = concat (map (split_on c) xs)"
proof (induction xs rule: induct_list012)
  case 1
  then show ?case by simp
next
  case (2 x)
  then show ?case by simp
next
  case (3 x y zs)
  then show ?case by (simp add: split_on_append_sep)
qed

lemma split_on_piece: "l \<in> set (split_on c s) \<Longrightarrow> c \<notin> set l \<and> sublist l s"
proof (induction s arbitrary: l)
  case Nil
  then show ?case by simp
next
  case (Cons x s)
  show ?case
  proof (cases "x = c")
    case True
    then show ?thesis using Cons by (auto intro: sublist_Cons_right [THEN iffD2])
  next
    case False
    obtain y ys where sp: "split_on c s = y # ys"
      using split_on_not_Nil [of c s] by (cases "split_on c s") auto
    have y: "c \<notin> set y \<and> prefix y s"
      using sp
    proof (induction s arbitrary: y ys)
      case Nil
      then show ?case by simp
    next
      case (Cons z s)
      then show ?case
        using split_on_not_Nil [of c s]
        by (cases "split_on c s") (auto split: if_splits)
    qed
    from Cons.prems False sp have "l = x # y \<or> l \<in> set ys" by simp
    then show ?thesis
    proof
      assume "l = x # y"
      then show ?thesis using y False by (auto intro: prefix_imp_sublist)
    next
      assume "l \<in> set ys"
      then have "l \<in> set (split_on c s)" using sp by simp
      then show ?thesis using Cons.IH by (auto intro: sublist_Cons_right [THEN iffD2])
    qed
  qed
qed

lemma split_on_no_sep: "c \<notin> set l \<Longrightarrow> split_on c l = [l]"
  by (induction l) auto

lemma filter_lines_keep:
  assumes "\<forall>l\<in>set xs. \<not> includes_str l GIT_IGNORE_START_LINE \<and> \<not> includes_str l GIT_IGNORE_END_LINE"
  shows "filter_lines False (xs @ ys) = xs @ filter_lines False ys"
  using assms by (induction xs) simp_all

lemma filter_lines_closed_section:
  assumes "\<forall>l\<in>set ps. \<not> includes_str l GIT_IGNORE_END_LINE"
  shows "filter_lines True (ps @ [GIT_IGNORE_END_LINE]) = []"
  using assms by (induction ps) (simp_all add: includes_str_refl)

lemma sublist_before_suffix:
  assumes "d \<notin> set m" and "\<not> sublist m (d # suf)"
  shows "sublist m (n @ d # suf) \<longleftrightarrow> sublist m n"
proof
  assume "sublist m (n @ d # suf)"
  then consider "sublist m n" | "sublist m (d # suf)"
    | xs1 xs2 where "m = xs1 @ xs2" "suffix xs1 n" "prefix xs2 (d # suf)"
    unfolding sublist_append by blast
  then show "sublist m n"
  proof cases
    case 1
    then show ?thesis .
  next
    case 2
    then show ?thesis using assms(2) by simp
  next
    case 3
    show ?thesis
    proof (cases xs2)
      case Nil
      then show ?thesis using 3 by (auto intro: suffix_imp_sublist)
    next
      case (Cons a as)
      then have "a = d" using 3(3) by simp
      then have "d \<in> set m" using 3(1) Cons by simp
      then show ?thesis using assms(1) by simp
    qed
  qed
next
  assume "sublist m n"
  then show "sublist m (n @ d # suf)" by (simp add: sublist_append)
qed

lemma generated_names_marker:
  assumes "g \<in> set (generated_names item)" and "includes_str g GIT_IGNORE_END_LINE"
  shows "includes_str (item_name item) GIT_IGNORE_END_LINE"
proof -
  have dot: "CHR ''.'' \<notin> set GIT_IGNORE_END_LINE"
    by (simp add: GIT_IGNORE_END_LINE_def)
  have short: "\<not> sublist GIT_IGNORE_END_LINE suf" if "length suf < 25" for suf
    using that sublist_length_le [of GIT_IGNORE_END_LINE suf]
    by (auto simp add: GIT_IGNORE_END_LINE_def)
  from assms(1) consider "g = item_name item @ ''.js''" | "g = item_name item @ ''.d.ts''"
    | "g = item_name item @ ''.esm.js''" | "g = item_name item @ ''.esm.d.ts''"
    by (auto simp add: generated_names_def)
  then show ?thesis
  proof cases
    case 1
    then show ?thesis
      using assms(2) sublist_before_suffix [OF dot short, of "''js''" "item_name item"]
      by (simp add: includes_str_sublist)
  next
    case 2
    then show ?thesis
      using assms(2) sublist_before_suffix [OF dot short, of "''d.ts''" "item_name item"]
      by (simp add: includes_str_sublist)
  next
    case 3
    then show ?thesis
      using assms(2) sublist_before_suffix [OF dot short, of "''esm.js''" "item_name item"]
      by (simp add: includes_str_sublist)
  next
    case 4
    then show ?thesis
      using assms(2) sublist_before_suffix [OF dot short, of "''esm.d.ts''" "item_name item"]
      by (simp add: includes_str_sublist)
  qed
qed

lemma marker_lines:
  "split_on NL GIT_IGNORE_START_LINE = [GIT_IGNORE_START_LINE]"
  "split_on NL GIT_IGNORE_END_LINE = [GIT_IGNORE_END_LINE]"
  by (simp_all add: split_on_no_sep GIT_IGNORE_START_LINE_def GIT_IGNORE_END_LINE_def)

lemma rewritten_lines:
  "split_on NL (join [NL] (filter_lines False (split_on NL content) @ generated_section js))
   = filter_lines False (split_on NL content) @ [GIT_IGNORE_START_LINE]
     @ concat (map (split_on NL) (concat (map generated_names js))) @ [GIT_IGNORE_END_LINE]"
proof -
  have kept: "concat (map (split_on NL) (filter_lines False (split_on NL content)))
      = filter_lines False (split_on NL content)"
  proof -
    have "\<forall>l\<in>set ls. NL \<notin> set l \<Longrightarrow> concat (map (split_on NL) ls) = ls" for ls
      by (induction ls) (simp_all add: split_on_no_sep)
    moreover have "\<forall>l\<in>set (filter_lines False (split_on NL content)). NL \<notin> set l"
      using filter_lines_subset split_on_piece by blast
    ultimately show ?thesis by blast
  qed
  have "filter_lines False (split_on NL content) @ generated_section js \<noteq> []"
    by (simp add: generated_section_def)
  then have "split_on NL (join [NL] (filter_lines False (split_on NL content)
        @ generated_section js))
      = concat (map (split_on NL) (filter_lines False (split_on NL content)
        @ generated_section js))"
    by (rule split_on_join)
  then show ?thesis
    by (simp add: kept generated_section_def marker_lines)
qed

lemma section_body_no_end:
  assumes "\<forall>item\<in>set js. \<not> includes_str (item_name item) GIT_IGNORE_END_LINE"
  shows "\<forall>l\<in>set (concat (map (split_on NL) (concat (map generated_names js)))).
     \<not> includes_str l GIT_IGNORE_END_LINE"
proof
  fix l
  assume "l \<in> set (concat (map (split_on NL) (concat (map generated_names js))))"
  then obtain item g where item: "item \<in> set js" and g: "g \<in> set (generated_names item)"
    and l: "l \<in> set (split_on NL g)"
    by auto
  show "\<not> includes_str l GIT_IGNORE_END_LINE"
  proof
    assume "includes_str l GIT_IGNORE_END_LINE"
    then have "sublist GIT_IGNORE_END_LINE l" by (simp add: includes_str_sublist)
    moreover have "sublist l g" using l split_on_piece by blast
    ultimately have "includes_str g GIT_IGNORE_END_LINE"
      by (auto simp add: includes_str_sublist intro: sublist_order.order.trans)
    then show False using generated_names_marker [OF g] assms item by blast
  qed
qed

subsection \<open>Markers\<close>

text \<open>
  Claim C10. A line that contains the text of the start marker opens the generated
  section and a line that contains the text of the end marker closes it; neither is kept,
  so no kept line contains a marker. When a line with the start marker is followed by no
  line with the end marker, nothing after it is kept: the file written is the lines kept
  from before it, followed by the fresh section.
\<close>

theorem ignore_markers_by_containment:
  "(includes_str line GIT_IGNORE_START_LINE \<longrightarrow>
      filter_lines b (line # rest) = filter_lines True rest)
   \<and> (\<not> includes_str line GIT_IGNORE_START_LINE \<and> includes_str line GIT_IGNORE_END_LINE \<longrightarrow>
      filter_lines b (line # rest) = filter_lines False rest)
   \<and> (\<forall>l\<in>set (filter_lines b ls).
        \<not> includes_str l GIT_IGNORE_START_LINE \<and> \<not> includes_str l GIT_IGNORE_END_LINE)
   \<and> (split_on NL content = pre @ s # post \<and> includes_str s GIT_IGNORE_START_LINE
        \<and> (\<forall>l\<in>set post. \<not> includes_str l GIT_IGNORE_END_LINE) \<longrightarrow>
      registerGITIgnoreFiles (Some js) content =
        Inr (join [NL] (filter_lines False pre @ generated_section js)))"
  using filter_lines_subset [of _ b ls] filter_lines_unterminated [of s post False pre]
  by (auto simp add: registerGITIgnoreFiles_def Let_def)

theorem ignore_markers_by_containment_witness:
  "registerGITIgnoreFiles
     (Some [\<lparr>item_name = ''api'', item_file = ''./dist/api'',
             export_kind = JStr ''default export'', entry_point = JUndefined\<rparr>])
     ''node_modules\<newline># ### Start Generated Section (old)\<newline>old.js\<newline>notes.txt''
   = Inr ''node_modules\<newline>### Start Generated Section\<newline>api.js\<newline>api.d.ts\<newline>api.esm.js\<newline>api.esm.d.ts\<newline>### End Generated Section''"
proof -
  have lines: "split_on NL
      ''node_modules\<newline># ### Start Generated Section (old)\<newline>old.js\<newline>notes.txt''
    = [''node_modules''] @ ''# ### Start Generated Section (old)'' # [''old.js'', ''notes.txt'']"
    by simp
  have s: "includes_str ''# ### Start Generated Section (old)'' GIT_IGNORE_START_LINE"
    by (simp add: GIT_IGNORE_START_LINE_def)
  have post: "\<forall>l\<in>set [''old.js'', ''notes.txt'']. \<not> includes_str l GIT_IGNORE_END_LINE"
    by (simp add: GIT_IGNORE_END_LINE_def)
  have pre: "filter_lines False [''node_modules''] = [''node_modules'']"
    by (simp add: GIT_IGNORE_START_LINE_def GIT_IGNORE_END_LINE_def)
  from ignore_markers_by_containment [of _ _ _ _ 
      "''node_modules\<newline># ### Start Generated Section (old)\<newline>old.js\<newline>notes.txt''"
      "[''node_modules'']" "''# ### Start Generated Section (old)''" "[''old.js'', ''notes.txt'']"
      "[\<lparr>item_name = ''api'', item_file = ''./dist/api'',
             export_kind = JStr ''default export'', entry_point = JUndefined\<rparr>]"]
    lines s post
  have "registerGITIgnoreFiles
     (Some [\<lparr>item_name = ''api'', item_file = ''./dist/api'',
             export_kind = JStr ''default export'', entry_point = JUndefined\<rparr>])
     ''node_modules\<newline># ### Start Generated Section (old)\<newline>old.js\<newline>notes.txt''
    = Inr (join [NL] (filter_lines False [''node_modules''] @ generated_section
        [\<lparr>item_name = ''api'', item_file = ''./dist/api'',
             export_kind = JStr ''default export'', entry_point = JUndefined\<rparr>]))"
    by blast
  then show ?thesis
    by (simp add: pre generated_section_def generated_names_def GIT_IGNORE_START_LINE_def
        GIT_IGNORE_END_LINE_def)
qed

subsection \<open>Running twice\<close>

text \<open>
  Claim C5 says that a second run on the same descriptor leaves one generated section.
  The lines of the section are the generated names, and a name that contains the text of
  the end marker closes the section early on the next run: the names listed after it are
  then kept as ordinary lines and listed once more in the fresh section.
\<close>

theorem rerun_duplicates_counterexample:
  "registerGITIgnoreFiles
     (Some [\<lparr>item_name = ''### End Generated Section'', item_file = ''./dist/a'',
             export_kind = JStr ''default export'', entry_point = JUndefined\<rparr>,
            \<lparr>item_name = ''b'', item_file = ''./dist/b'',
             export_kind = JStr ''default export'', entry_point = JUndefined\<rparr>])
     ''node_modules''
   = Inr ''node_modules\<newline>### Start Generated Section\<newline>### End Generated Section.js\<newline>### End Generated Section.d.ts\<newline>### End Generated Section.esm.js\<newline>### End Generated Section.esm.d.ts\<newline>b.js\<newline>b.d.ts\<newline>b.esm.js\<newline>b.esm.d.ts\<newline>### End Generated Section''
   \<and> registerGITIgnoreFiles
     (Some [\<lparr>item_name = ''### End Generated Section'', item_file = ''./dist/a'',
             export_kind = JStr ''default export'', entry_point = JUndefined\<rparr>,
            \<lparr>item_name = ''b'', item_file = ''./dist/b'',
             export_kind = JStr ''default export'', entry_point = JUndefined\<rparr>])
     ''node_modules\<newline>### Start Generated Section\<newline>### End Generated Section.js\<newline>### End Generated Section.d.ts\<newline>### End Generated Section.esm.js\<newline>### End Generated Section.esm.d.ts\<newline>b.js\<newline>b.d.ts\<newline>b.esm.js\<newline>b.esm.d.ts\<newline>### End Generated Section''
   = Inr ''node_modules\<newline>b.js\<newline>b.d.ts\<newline>b.esm.js\<newline>b.esm.d.ts\<newline>### Start Generated Section\<newline>### End Generated Section.js\<newline>### End Generated Section.d.ts\<newline>### End Generated Section.esm.js\<newline>### End Generated Section.esm.d.ts\<newline>b.js\<newline>b.d.ts\<newline>b.esm.js\<newline>b.esm.d.ts\<newline>### End Generated Section''"
  by (simp add: registerGITIgnoreFiles_def generated_section_def generated_names_def
      GIT_IGNORE_START_LINE_def GIT_IGNORE_END_LINE_def)

text \<open>
  Claim C5, amended. When no \<^verbatim>\<open>js-file\<close> name contains the text of the end marker:
  a second run of the generator leaves every file as the first run left it; a second
  rewrite of the ignore file returns the content that the first rewrite wrote; that
  content is the lines kept from the old file, none of which contains a marker, then the
  start marker, then lines without the end marker, then the end marker as the last line.
\<close>

theorem rerun_idempotent:
  assumes "\<forall>item\<in>set js. \<not> includes_str (item_name item) GIT_IGNORE_END_LINE"
  shows "fs (generatePublicAPI pj dir js (generatePublicAPI pj dir js w))
      = fs (generatePublicAPI pj dir js w)
    \<and> (\<exists>out1 body.
        registerGITIgnoreFiles (Some js) content = Inr out1
      \<and> registerGITIgnoreFiles (Some js) out1 = Inr out1
      \<and> split_on NL out1 = filter_lines False (split_on NL content) @ [GIT_IGNORE_START_LINE]
          @ body @ [GIT_IGNORE_END_LINE]
      \<and> (\<forall>l\<in>set (filter_lines False (split_on NL content)).
            \<not> includes_str l GIT_IGNORE_START_LINE \<and> \<not> includes_str l GIT_IGNORE_END_LINE)
      \<and> (\<forall>l\<in>set body. \<not> includes_str l GIT_IGNORE_END_LINE))"
proof -
  obtain M where M: "\<And>v. fs (generatePublicAPI pj dir js v) = fs v ++ M"
    using generatePublicAPI_fs by blast
  have stubs: "fs (generatePublicAPI pj dir js (generatePublicAPI pj dir js w))
      = fs (generatePublicAPI pj dir js w)"
    by (rule ext) (simp add: M map_add_def split: option.splits)
  define kept where "kept = filter_lines False (split_on NL content)"
  define body where "body = concat (map (split_on NL) (concat (map generated_names js)))"
  define out1 where "out1 = join [NL] (kept @ generated_section js)"
  have first: "registerGITIgnoreFiles (Some js) content = Inr out1"
    by (simp add: registerGITIgnoreFiles_def out1_def kept_def)
  have lines: "split_on NL out1 = kept @ [GIT_IGNORE_START_LINE] @ body @ [GIT_IGNORE_END_LINE]"
    unfolding out1_def kept_def body_def by (rule rewritten_lines)
  have kept_clean: "\<forall>l\<in>set kept.
      \<not> includes_str l GIT_IGNORE_START_LINE \<and> \<not> includes_str l GIT_IGNORE_END_LINE"
    unfolding kept_def using filter_lines_subset by blast
  have body_clean: "\<forall>l\<in>set body. \<not> includes_str l GIT_IGNORE_END_LINE"
    unfolding body_def using assms by (rule section_body_no_end)
  have "filter_lines False (split_on NL out1) = kept"
    unfolding lines
    by (simp add: filter_lines_keep [OF kept_clean] includes_str_refl
        filter_lines_closed_section [OF body_clean])
  then have second: "registerGITIgnoreFiles (Some js) out1 = Inr out1"
    by (simp add: registerGITIgnoreFiles_def out1_def)
  show ?thesis
    using stubs first second lines kept_clean body_clean unfolding kept_def by blast
qed

theorem rerun_idempotent_witness:
  "registerGITIgnoreFiles
     (Some [\<lparr>item_name = ''utils/api'', item_file = ''./dist/utils/api'',
             export_kind = JStr ''default export'', entry_point = JUndefined\<rparr>])
     ''node_modules\<newline>### Start Generated Section\<newline>old.js\<newline>### End Generated Section\<newline>notes.txt''
   = Inr ''node_modules\<newline>notes.txt\<newline>### Start Generated Section\<newline>utils/api.js\<newline>utils/api.d.ts\<newline>utils/api.esm.js\<newline>utils/api.esm.d.ts\<newline>### End Generated Section''
   \<and> registerGITIgnoreFiles
     (Some [\<lparr>item_name = ''utils/api'', item_file = ''./dist/utils/api'',
             export_kind = JStr ''default export'', entry_point = JUndefined\<rparr>])
     ''node_modules\<newline>notes.txt\<newline>### Start Generated Section\<newline>utils/api.js\<newline>utils/api.d.ts\<newline>utils/api.esm.js\<newline>utils/api.esm.d.ts\<newline>### End Generated Section''
   = Inr ''node_modules\<newline>notes.txt\<newline>### Start Generated Section\<newline>utils/api.js\<newline>utils/api.d.ts\<newline>utils/api.esm.js\<newline>utils/api.esm.d.ts\<newline>### End Generated Section''"
proof -
  have h: "\<forall>item\<in>set [\<lparr>item_name = ''utils/api'', item_file = ''./dist/utils/api'',
             export_kind = JStr ''default export'', entry_point = JUndefined\<rparr>].
      \<not> includes_str (item_name item) GIT_IGNORE_END_LINE"
    by (simp add: GIT_IGNORE_END_LINE_def)
  have first: "registerGITIgnoreFiles
     (Some [\<lparr>item_name = ''utils/api'', item_file = ''./dist/utils/api'',
             export_kind = JStr ''default export'', entry_point = JUndefined\<rparr>])
     ''node_modules\<newline>### Start Generated Section\<newline>old.js\<newline>### End Generated Section\<newline>notes.txt''
   = Inr ''node_modules\<newline>notes.txt\<newline>### Start Generated Section\<newline>utils/api.js\<newline>utils/api.d.ts\<newline>utils/api.esm.js\<newline>utils/api.esm.d.ts\<newline>### End Generated Section''"
    by (simp add: registerGITIgnoreFiles_def generated_section_def generated_names_def
        GIT_IGNORE_START_LINE_def GIT_IGNORE_END_LINE_def)
  from rerun_idempotent [OF h, of _ _ _
      "''node_modules\<newline>### Start Generated Section\<newline>old.js\<newline>### End Generated Section\<newline>notes.txt''"]
  obtain out1 where
    "registerGITIgnoreFiles
     (Some [\<lparr>item_name = ''utils/api'', item_file = ''./dist/utils/api'',
             export_kind = JStr ''default export'', entry_point = JUndefined\<rparr>])
     ''node_modules\<newline>### Start Generated Section\<newline>old.js\<newline>### End Generated Section\<newline>notes.txt''
      = Inr out1"
    and "registerGITIgnoreFiles
     (Some [\<lparr>item_name = ''utils/api'', item_file = ''./dist/utils/api'',
             export_kind = JStr ''default export'', entry_point = JUndefined\<rparr>]) out1
      = Inr out1"
    by blast
  with first show ?thesis by simp
qed

end
